theory Spec2Isabelle
  imports Main
begin

section \<open>Python dictionaries as written in the source\<close>

text \<open>
  The repository consists of one Python module whose only statement binds the name
  \<open>LiquidationConfig\<close> to a nested dictionary display.  A dictionary display is kept
  here as the list of its \<open>key: value\<close> entries in source order.  Python evaluates the
  entries from left to right and a later entry replaces an earlier one with the same key,
  so subscription looks the key up from the right end of the list.
\<close>

datatype error = KeyNotFound

type_synonym ('k, 'v) dict = "('k \<times> 'v) list"

text \<open>\<open>d[k]\<close>: the value stored under \<open>k\<close>; Python raises \<open>KeyError\<close> when there is none.\<close>

definition getitem :: "('k, 'v) dict \<Rightarrow> 'k \<Rightarrow> error + 'v" where
  "getitem d k = (case map_of (rev d) k of None \<Rightarrow> Inl KeyNotFound | Some v \<Rightarrow> Inr v)"

text \<open>\<open>d.keys()\<close>, as a set.\<close>

definition keys :: "('k, 'v) dict \<Rightarrow> 'k set" where
  "keys d = set (map fst d)"

section \<open>The table of \<^verbatim>\<open>scripts/liquidation/liquidation_config.py\<close>\<close>

definition LiquidationConfig :: "(string \<times> (string \<times> string) list) list" where
  "LiquidationConfig = [
    (''kovan'', [
      (''NotionalV2'', ''0x0EAE7BAdEF8f95De91fDDb74a89A786cF891Eb0e''),
      (''MockFlashLender'', ''0xFcdAe2109D5Fa3Fbe82E4FE03110966cA449057c''),
      (''AaveFlashLender'', ''0xe0fba4fc209b4948668006b2be61711b7f465bae''),
      (''LeakyFlashLender'', ''0xb3E6bBf0aC44965Ed5842d2feC2acCa89DB9C586''),
      (''WETH'', ''0xd0A1E359811322d97991E03f863a0C30C2cF029C''),
      (''DAI'', ''0x181d62ff8c0aeed5bc2bf77a88c07235c4cc6905''),
      (''USDC'', ''0xf503d5cd87d10ce8172f9e77f76ade8109037b4c''),
      (''WBTC'', ''0x45a8451ceaae5976b4ae5f14a7ad789fae8e9971''),
      (''ADAI'', ''0xFf795577d9AC8bD7D90Ee22b6C1703490b6512FD''),
      (''UniswapRouter'', ''0xE592427A0AEce92De3Edee1F18E0157C05861564''),
      (''cETH'', ''0x40575f9Eb401f63f66F4c434248ad83D3441bf61''),
      (''cDAI'', ''0x4dc87a3d30c4a1b33e4349f02f4c5b1b1ef9a75d''),
      (''cUSDC'', ''0xf17c5c7240cbc83d3186a9d6935f003e451c5cdd''),
      (''cWBTC'', ''0xa8e51e20985e926de882ee700ec7f7d51d89d130''),
      (''caDAI'', ''0xED36a75A9ca4f72ad0fD8f3FB56b2c9aA8ceA28d''),
      (''UniswapWETHDAI'', ''0x4ba1d028e053A53842Ce31b0357C5864B40Ef909''),
      (''NoteToken'', ''0xCFEAead4947f0705A14ec42aC3D44129E1Ef3eD5'')
    ]),
    (''mainnet'', [
      (''NotionalV2'', ''0x1344A36A1B56144C3Bc62E7757377D288fDE0369''),
      (''AaveFlashLender'', ''0x7d2768dE32b0b80b7a3454c06BdAc94A69DDc7A9''),
      (''WETH'', ''0xC02aaA39b223FE8D0A0e5C4F27eAD9083C756Cc2''),
      (''DAI'', ''0x6B175474E89094C44Da98b954EedeAC495271d0F''),
      (''USDC'', ''0xA0b86991c6218b36c1d19D4a2e9Eb0cE3606eB48''),
      (''WBTC'', ''0x2260FAC5E5542a773Aa44fBCfeDf7C193bc2C599''),
      (''UniswapRouter'', ''0xE592427A0AEce92De3Edee1F18E0157C05861564''),
      (''cETH'', ''0x4ddc2d193948926d02f9b1fe9e1daa0718270ed5''),
      (''cDAI'', ''0x5d3a536e4d6dbd6114cc1ead35777bab948e3643''),
      (''cUSDC'', ''0x39aa39c021dfbae8fac545936693ac917d5e7563''),
      (''cWBTC'', ''0xC11b1268C1A384e55C48c2391d8d480264A3A7F4''),
      (''NoteToken'', ''0xCFEAead4947f0705A14ec42aC3D44129E1Ef3eD5'')
    ])
  ]"

section \<open>The registry operations\<close>

text \<open>
  The module defines no function.  The three operations below are the ones the
  specification names for the callers of the table (section 4.1); those callers are not
  part of the source.  Each is the plain dictionary access on \<open>LiquidationConfig\<close>, and a
  missing key is the specification's \<open>KeyNotFound\<close> condition.
\<close>

text \<open>
  Modelled from the spec: \<open>lookup(network, label)\<close>, missing from the source, "returns the
  address string for the given network/label pair" and "fails with a \<open>KeyNotFound\<close>
  condition if either the network or the label is absent"; that is
  \<open>LiquidationConfig[network][label]\<close>.
\<close>

definition lookup :: "string \<Rightarrow> string \<Rightarrow> error + string" where
  "lookup network label =
     (case getitem LiquidationConfig network of
        Inl e \<Rightarrow> Inl e
      | Inr addresses \<Rightarrow> getitem addresses label)"

text \<open>
  Modelled from the spec: \<open>networks()\<close>, missing from the source, "returns the fixed set of
  supported network identifiers"; that is \<open>LiquidationConfig.keys()\<close>.
\<close>

definition networks :: "string set" where
  "networks = keys LiquidationConfig"

text \<open>
  Modelled from the spec: \<open>labels(network)\<close>, missing from the source, "returns the set of
  contract labels defined for a given network"; that is \<open>LiquidationConfig[network].keys()\<close>,
  which requests the network from the table first and so fails like \<open>lookup\<close> when the
  network is absent.
\<close>

definition labels :: "string \<Rightarrow> error + string set" where
  "labels network =
     (case getitem LiquidationConfig network of
        Inl e \<Rightarrow> Inl e
      | Inr addresses \<Rightarrow> Inr (keys addresses))"

section \<open>Well-formed addresses\<close>

text \<open>The pattern \<^verbatim>\<open>0x[0-9a-fA-F]{40}\<close>, matched against the whole string.\<close>

definition is_hex_char :: "char \<Rightarrow> bool" where
  "is_hex_char c = (c \<in> set ''0123456789abcdefABCDEF'')"

definition is_address :: "string \<Rightarrow> bool" where
  "is_address a = (take 2 a = ''0x'' \<and> length (drop 2 a) = 40 \<and> list_all is_hex_char (drop 2 a))"

section \<open>Dictionary access\<close>

lemma getitem_Inl_iff: "(getitem d k = Inl e) = (k \<notin> keys d)"
proof -
  have absent: "(map_of (rev d) k = None) = (k \<notin> fst ` set d)"
    by (simp add: map_of_eq_None_iff)
  show ?thesis
  proof (cases "map_of (rev d) k")
    case None
    then show ?thesis
      using absent by (cases e) (simp add: getitem_def keys_def)
  next
    case (Some v)
    then show ?thesis
      using absent by (simp add: getitem_def keys_def)
  qed
qed

lemma getitem_InrD: "getitem d k = Inr v \<Longrightarrow> (k, v) \<in> set d"
  by (auto simp: getitem_def split: option.splits dest: map_of_SomeD)

lemma getitem_distinct:
  assumes "distinct (map fst d)" and "(k, v) \<in> set d"
  shows "getitem d k = Inr v"
proof -
  have "distinct (map fst (rev d))"
    using assms(1) by (simp add: rev_map [symmetric])
  moreover have "(k, v) \<in> set (rev d)"
    using assms(2) by simp
  ultimately have "map_of (rev d) k = Some v"
    by (rule map_of_is_SomeI)
  then show ?thesis
    by (simp add: getitem_def)
qed

lemma getitem_present:
  assumes "k \<in> keys d"
  obtains v where "getitem d k = Inr v" and "(k, v) \<in> set d"
proof (cases "getitem d k")
  case (Inl e)
  then show ?thesis
    using assms by (simp add: getitem_Inl_iff)
next
  case (Inr v)
  then show ?thesis
    using that by (simp add: getitem_InrD)
qed

lemma psubset_witness: "A \<subseteq> B \<Longrightarrow> x \<in> B \<Longrightarrow> x \<notin> A \<Longrightarrow> A \<subset> B"
  by blast

section \<open>Facts read off the table\<close>

lemma networks_distinct: "distinct (map fst LiquidationConfig)"
  by (simp add: LiquidationConfig_def)

lemma labels_distinct: "list_all (\<lambda>(n, m). distinct (map fst m)) LiquidationConfig"
  by (simp add: LiquidationConfig_def)

lemma addresses_nonempty: "list_all (\<lambda>(n, m). m \<noteq> []) LiquidationConfig"
  by (simp add: LiquidationConfig_def)

lemma stored_addresses:
  "list_all (\<lambda>(n, m). list_all (\<lambda>(l, a). is_address a) m) LiquidationConfig"
  by (simp add: LiquidationConfig_def is_address_def is_hex_char_def)

lemma kovan_present: "''kovan'' \<in> networks"
  by (simp add: networks_def keys_def LiquidationConfig_def)

lemma mainnet_present: "''mainnet'' \<in> networks"
  by (simp add: networks_def keys_def LiquidationConfig_def)

lemma labels_kovan:
  "labels ''kovan'' = Inr {''NotionalV2'', ''MockFlashLender'', ''AaveFlashLender'',
     ''LeakyFlashLender'', ''WETH'', ''DAI'', ''USDC'', ''WBTC'', ''ADAI'', ''UniswapRouter'',
     ''cETH'', ''cDAI'', ''cUSDC'', ''cWBTC'', ''caDAI'', ''UniswapWETHDAI'', ''NoteToken''}"
  by (simp add: labels_def getitem_def keys_def LiquidationConfig_def)

lemma labels_mainnet:
  "labels ''mainnet'' = Inr {''NotionalV2'', ''AaveFlashLender'', ''WETH'', ''DAI'', ''USDC'',
     ''WBTC'', ''UniswapRouter'', ''cETH'', ''cDAI'', ''cUSDC'', ''cWBTC'', ''NoteToken''}"
  by (simp add: labels_def getitem_def keys_def LiquidationConfig_def)

section \<open>Every stored address is well formed\<close>

text \<open>
  C1: for every network \<open>n\<close> of the registry and every label \<open>l\<close> in \<open>labels(n)\<close>,
  \<open>lookup(n, l)\<close> returns a string made of the prefix \<open>0x\<close> and exactly 40 hexadecimal
  characters in either case.  The theorem also says that \<open>labels(n)\<close> is defined for each
  such network, so the statement is not empty.
\<close>

theorem lookup_is_address:
  "\<forall>n \<in> networks. \<exists>ls. labels n = Inr ls \<and>
     (\<forall>l \<in> ls. \<exists>a. lookup n l = Inr a \<and> is_address a)"
proof
  fix n
  assume "n \<in> networks"
  then have "n \<in> keys LiquidationConfig"
    by (simp add: networks_def)
  then obtain m where m: "getitem LiquidationConfig n = Inr m" "(n, m) \<in> set LiquidationConfig"
    by (rule getitem_present)
  have "\<forall>l \<in> keys m. \<exists>a. lookup n l = Inr a \<and> is_address a"
  proof
    fix l
    assume "l \<in> keys m"
    then obtain a where a: "getitem m l = Inr a" "(l, a) \<in> set m"
      by (rule getitem_present)
    from stored_addresses m(2) have "list_all (\<lambda>(l, a). is_address a) m"
      by (auto simp: list_all_iff)
    with a(2) have "is_address a"
      by (auto simp: list_all_iff)
    with m(1) a(1) show "\<exists>a. lookup n l = Inr a \<and> is_address a"
      by (simp add: lookup_def)
  qed
  with m(1) show "\<exists>ls. labels n = Inr ls \<and> (\<forall>l \<in> ls. \<exists>a. lookup n l = Inr a \<and> is_address a)"
    by (simp add: labels_def)
qed

theorem lookup_is_address_witness:
  "''kovan'' \<in> networks \<and>
   (\<exists>ls. labels ''kovan'' = Inr ls \<and> ''cDAI'' \<in> ls \<and>
      (\<exists>a. lookup ''kovan'' ''cDAI'' = Inr a \<and> is_address a))"
proof -
  from lookup_is_address kovan_present
  obtain ls where ls: "labels ''kovan'' = Inr ls"
    and wf: "\<forall>l \<in> ls. \<exists>a. lookup ''kovan'' l = Inr a \<and> is_address a"
    by blast
  have "''cDAI'' \<in> (case labels ''kovan'' of Inl e \<Rightarrow> {} | Inr ks \<Rightarrow> ks)"
    by (simp add: labels_kovan)
  with ls have "''cDAI'' \<in> ls"
    by simp
  moreover from this wf have "\<exists>a. lookup ''kovan'' ''cDAI'' = Inr a \<and> is_address a"
    by (rule bspec [rotated])
  ultimately show ?thesis
    using ls kovan_present by simp
qed

section \<open>Success and failure of a lookup\<close>

text \<open>
  C2: \<open>lookup(network, label)\<close> returns the address stored in the registry for that pair
  when the network and the label are both present; it fails with \<open>KeyNotFound\<close> if and
  only if the network or the label is absent; and whatever it returns is an address stored
  for that pair, so no default or fallback value is ever returned.
\<close>

theorem lookup_stored_or_KeyNotFound:
  "(\<forall>m a. (n, m) \<in> set LiquidationConfig \<and> (l, a) \<in> set m \<longrightarrow> lookup n l = Inr a) \<and>
   ((lookup n l = Inl KeyNotFound) =
      (n \<notin> networks \<or> (\<exists>ls. labels n = Inr ls \<and> l \<notin> ls))) \<and>
   (\<forall>a. lookup n l = Inr a \<longrightarrow> (\<exists>m. (n, m) \<in> set LiquidationConfig \<and> (l, a) \<in> set m))"
proof (intro conjI allI impI)
  fix m a
  assume "(n, m) \<in> set LiquidationConfig \<and> (l, a) \<in> set m"
  then have nm: "(n, m) \<in> set LiquidationConfig" and la: "(l, a) \<in> set m"
    by simp_all
  from networks_distinct nm have "getitem LiquidationConfig n = Inr m"
    by (rule getitem_distinct)
  moreover from labels_distinct nm have "distinct (map fst m)"
    by (auto simp: list_all_iff)
  then have "getitem m l = Inr a"
    using la by (rule getitem_distinct)
  ultimately show "lookup n l = Inr a"
    by (simp add: lookup_def)
next
  show "(lookup n l = Inl KeyNotFound) =
      (n \<notin> networks \<or> (\<exists>ls. labels n = Inr ls \<and> l \<notin> ls))"
  proof (cases "getitem LiquidationConfig n")
    case (Inl e)
    then have "n \<notin> networks"
      by (simp add: getitem_Inl_iff networks_def)
    with Inl show ?thesis
      by (cases e) (simp add: lookup_def)
  next
    case (Inr m)
    have "n \<in> networks"
      using Inr getitem_Inl_iff [of LiquidationConfig n KeyNotFound]
      by (simp add: networks_def)
    with Inr show ?thesis
      by (simp add: lookup_def labels_def getitem_Inl_iff)
  qed
next
  fix a
  assume found: "lookup n l = Inr a"
  then obtain m where m: "getitem LiquidationConfig n = Inr m"
    by (cases "getitem LiquidationConfig n") (simp_all add: lookup_def)
  with found have "getitem m l = Inr a"
    by (simp add: lookup_def)
  then have "(l, a) \<in> set m"
    by (rule getitem_InrD)
  moreover from m have "(n, m) \<in> set LiquidationConfig"
    by (rule getitem_InrD)
  ultimately show "\<exists>m. (n, m) \<in> set LiquidationConfig \<and> (l, a) \<in> set m"
    by blast
qed

theorem lookup_stored_or_KeyNotFound_witness:
  "(''mainnet'', snd (last LiquidationConfig)) \<in> set LiquidationConfig \<and>
   (''DAI'', ''0x6B175474E89094C44Da98b954EedeAC495271d0F'') \<in> set (snd (last LiquidationConfig)) \<and>
   lookup ''mainnet'' ''DAI'' = Inr ''0x6B175474E89094C44Da98b954EedeAC495271d0F'' \<and>
   ''ropsten'' \<notin> networks \<and>
   lookup ''ropsten'' ''DAI'' = Inl KeyNotFound"
proof -
  have nm: "(''mainnet'', snd (last LiquidationConfig)) \<in> set LiquidationConfig"
    by (simp add: LiquidationConfig_def)
  have la: "(''DAI'', ''0x6B175474E89094C44Da98b954EedeAC495271d0F'')
      \<in> set (snd (last LiquidationConfig))"
    by (simp add: LiquidationConfig_def)
  have absent: "''ropsten'' \<notin> networks"
    by (simp add: networks_def keys_def LiquidationConfig_def)
  from nm la
    lookup_stored_or_KeyNotFound [of "''mainnet''" "''DAI''"]
  have "lookup ''mainnet'' ''DAI'' = Inr ''0x6B175474E89094C44Da98b954EedeAC495271d0F''"
    by blast
  moreover from absent
    lookup_stored_or_KeyNotFound [of "''ropsten''" "''DAI''"]
  have "lookup ''ropsten'' ''DAI'' = Inl KeyNotFound"
    by blast
  ultimately show ?thesis
    using nm la absent by simp
qed

section \<open>Single entries of the table\<close>

text \<open>
  C3: \<open>lookup("mainnet", "WETH")\<close> returns exactly the string
  \<open>"0xC02aaA39b223FE8D0A0e5C4F27eAD9083C756Cc2"\<close>.
\<close>

theorem lookup_mainnet_WETH:
  "lookup ''mainnet'' ''WETH'' = Inr ''0xC02aaA39b223FE8D0A0e5C4F27eAD9083C756Cc2''"
  by (simp add: lookup_def getitem_def LiquidationConfig_def)

text \<open>
  C4: \<open>lookup("kovan", "NoteToken")\<close> equals \<open>lookup("mainnet", "NoteToken")\<close>, and both are
  the string \<open>"0xCFEAead4947f0705A14ec42aC3D44129E1Ef3eD5"\<close>.
\<close>

theorem lookup_NoteToken_shared:
  "lookup ''kovan'' ''NoteToken'' = lookup ''mainnet'' ''NoteToken'' \<and>
   lookup ''kovan'' ''NoteToken'' = Inr ''0xCFEAead4947f0705A14ec42aC3D44129E1Ef3eD5'' \<and>
   lookup ''mainnet'' ''NoteToken'' = Inr ''0xCFEAead4947f0705A14ec42aC3D44129E1Ef3eD5''"
  by (simp add: lookup_def getitem_def LiquidationConfig_def)

text \<open>
  C9: \<open>lookup("kovan", "UniswapRouter")\<close> equals \<open>lookup("mainnet", "UniswapRouter")\<close>, and
  both are the string \<open>"0xE592427A0AEce92De3Edee1F18E0157C05861564"\<close>: the router address
  is shared by the two networks as well.
\<close>

theorem lookup_UniswapRouter_shared:
  "lookup ''kovan'' ''UniswapRouter'' = lookup ''mainnet'' ''UniswapRouter'' \<and>
   lookup ''kovan'' ''UniswapRouter'' = Inr ''0xE592427A0AEce92De3Edee1F18E0157C05861564'' \<and>
   lookup ''mainnet'' ''UniswapRouter'' = Inr ''0xE592427A0AEce92De3Edee1F18E0157C05861564''"
  by (simp add: lookup_def getitem_def LiquidationConfig_def)

section \<open>Networks and their label sets\<close>

text \<open>
  C5: each of the labels \<open>MockFlashLender\<close>, \<open>LeakyFlashLender\<close> and \<open>UniswapWETHDAI\<close> is
  in \<open>labels("kovan")\<close> and not in \<open>labels("mainnet")\<close>; \<open>lookup("kovan", "MockFlashLender")\<close>
  succeeds and \<open>lookup("mainnet", "MockFlashLender")\<close> fails with \<open>KeyNotFound\<close>.
\<close>

theorem kovan_only_labels:
  "(\<exists>ks ms. labels ''kovan'' = Inr ks \<and> labels ''mainnet'' = Inr ms \<and>
      ''MockFlashLender'' \<in> ks \<and> ''LeakyFlashLender'' \<in> ks \<and> ''UniswapWETHDAI'' \<in> ks \<and>
      ''MockFlashLender'' \<notin> ms \<and> ''LeakyFlashLender'' \<notin> ms \<and> ''UniswapWETHDAI'' \<notin> ms) \<and>
   lookup ''kovan'' ''MockFlashLender'' = Inr ''0xFcdAe2109D5Fa3Fbe82E4FE03110966cA449057c'' \<and>
   lookup ''mainnet'' ''MockFlashLender'' = Inl KeyNotFound"
proof -
  have "lookup ''kovan'' ''MockFlashLender'' = Inr ''0xFcdAe2109D5Fa3Fbe82E4FE03110966cA449057c''"
    by (simp add: lookup_def getitem_def LiquidationConfig_def)
  moreover have "lookup ''mainnet'' ''MockFlashLender'' = Inl KeyNotFound"
    by (simp add: lookup_def getitem_def LiquidationConfig_def)
  ultimately show ?thesis
    by (simp add: labels_kovan labels_mainnet)
qed

text \<open>
  C6: \<open>networks()\<close> returns the fixed set of supported network identifiers, which is
  exactly the two-element set of \<open>"kovan"\<close> and \<open>"mainnet"\<close>.
\<close>

theorem networks_kovan_mainnet:
  "networks = {''kovan'', ''mainnet''} \<and> card networks = 2"
  by (simp add: networks_def keys_def LiquidationConfig_def)

text \<open>
  C7: for every network \<open>n\<close> in \<open>networks()\<close>, \<open>labels(n)\<close> returns a non-empty set of
  contract labels.
\<close>

theorem labels_nonempty:
  "\<forall>n \<in> networks. \<exists>ls. labels n = Inr ls \<and> ls \<noteq> {}"
proof
  fix n
  assume "n \<in> networks"
  then have "n \<in> keys LiquidationConfig"
    by (simp add: networks_def)
  then obtain m where m: "getitem LiquidationConfig n = Inr m" "(n, m) \<in> set LiquidationConfig"
    by (rule getitem_present)
  from addresses_nonempty m(2) have "m \<noteq> []"
    by (auto simp: list_all_iff)
  then have "keys m \<noteq> {}"
    by (simp add: keys_def)
  with m(1) show "\<exists>ls. labels n = Inr ls \<and> ls \<noteq> {}"
    by (simp add: labels_def)
qed

theorem labels_nonempty_witness:
  "''mainnet'' \<in> networks \<and> (\<exists>ls. labels ''mainnet'' = Inr ls \<and> ls \<noteq> {})"
  using labels_nonempty mainnet_present by blast

text \<open>
  C10: \<open>labels("mainnet")\<close> is a strict subset of \<open>labels("kovan")\<close>: every label defined
  for \<open>"mainnet"\<close> is defined for \<open>"kovan"\<close>, and \<open>"kovan"\<close> defines a label that
  \<open>"mainnet"\<close> does not.
\<close>

theorem labels_mainnet_strict_subset_kovan:
  "\<exists>ms ks. labels ''mainnet'' = Inr ms \<and> labels ''kovan'' = Inr ks \<and> ms \<subset> ks"
proof (intro exI conjI)
  show "labels ''mainnet'' = Inr {''NotionalV2'', ''AaveFlashLender'', ''WETH'', ''DAI'', ''USDC'',
     ''WBTC'', ''UniswapRouter'', ''cETH'', ''cDAI'', ''cUSDC'', ''cWBTC'', ''NoteToken''}"
    by (rule labels_mainnet)
  show "labels ''kovan'' = Inr {''NotionalV2'', ''MockFlashLender'', ''AaveFlashLender'',
     ''LeakyFlashLender'', ''WETH'', ''DAI'', ''USDC'', ''WBTC'', ''ADAI'', ''UniswapRouter'',
     ''cETH'', ''cDAI'', ''cUSDC'', ''cWBTC'', ''caDAI'', ''UniswapWETHDAI'', ''NoteToken''}"
    by (rule labels_kovan)
  show "{''NotionalV2'', ''AaveFlashLender'', ''WETH'', ''DAI'', ''USDC'',
     ''WBTC'', ''UniswapRouter'', ''cETH'', ''cDAI'', ''cUSDC'', ''cWBTC'', ''NoteToken''}
    \<subset> {''NotionalV2'', ''MockFlashLender'', ''AaveFlashLender'',
     ''LeakyFlashLender'', ''WETH'', ''DAI'', ''USDC'', ''WBTC'', ''ADAI'', ''UniswapRouter'',
     ''cETH'', ''cDAI'', ''cUSDC'', ''cWBTC'', ''caDAI'', ''UniswapWETHDAI'', ''NoteToken''}"
    (is "?M \<subset> ?K")
  proof (rule psubset_witness)
    show "?M \<subseteq> ?K" by simp
    show "''ADAI'' \<in> ?K" by simp
    show "''ADAI'' \<notin> ?M" by simp
  qed
qed

end
